theory Spec2Isabelle
  imports Main "HOL-Library.Multiset"
begin

section \<open>Data model (polls/models.py)\<close>

text \<open>
  Rows are records, tables are lists of rows, the store is a record of the three
  tables. Primary keys are natural numbers, timestamps are integers (any linear
  time scale). A foreign key to the user table is held as the user object the
  ORM would load; two user objects are the same user when their primary keys
  agree (Django's model equality).
\<close>

record user =
  user_pk :: nat
  username :: string

record question =
  question_pk :: nat
  author :: user
  question_text :: string
  date_published :: int
  date_created :: int

record choice =
  choice_pk :: nat
  choice_question :: nat
  choice_text :: string

record vote =
  vote_pk :: nat
  voter :: user
  vote_choice :: nat
  hide_voter :: bool

record db =
  questions :: "question list"
  choices :: "choice list"
  votes :: "vote list"

text \<open>
  Exceptions are values. The first four are turned into a response by the REST
  framework's exception handler; \<open>DoesNotExist\<close> (raised by \<open>Manager.get\<close>) and
  \<open>IntegrityError\<close> (raised by the store on a violated constraint) are not caught
  anywhere in the application and surface as a server error.
\<close>

datatype error =
    PermissionDenied
  | Http404
  | MethodNotAllowed
  | ValidationError string
  | DoesNotExist
  | IntegrityError

fun error_status :: "error \<Rightarrow> nat" where
  "error_status PermissionDenied = 403"
| "error_status Http404 = 404"
| "error_status MethodNotAllowed = 405"
| "error_status (ValidationError msg) = 400"
| "error_status DoesNotExist = 500"
| "error_status IntegrityError = 500"

subsection \<open>PublishedQuestionManager\<close>

text \<open>
  \<^verbatim>\<open>annotate(choice_count=Coalesce(Count("choice"), 0))\<close>: the number of choice rows
  whose foreign key is the question.
\<close>

definition choice_count :: "db \<Rightarrow> question \<Rightarrow> nat" where
  "choice_count d q = length (filter (\<lambda>c. choice_question c = question_pk q) (choices d))"

text \<open>
  \<^verbatim>\<open>.exclude(Q(date_published__gt=now) | Q(choice_count=0)).order_by("-date_published")\<close>.
  The order of rows with equal dates is left to the store; the model keeps them
  in table order.
\<close>

definition get_queryset :: "int \<Rightarrow> db \<Rightarrow> question list" where
  "get_queryset now d =
     sort_key (\<lambda>q. - date_published q)
       (filter (\<lambda>q. \<not> (now < date_published q \<or> choice_count d q = 0)) (questions d))"

text \<open>\<^verbatim>\<open>Question.published_objects.get(pk=question_pk)\<close>\<close>

definition published_objects_get :: "int \<Rightarrow> db \<Rightarrow> nat \<Rightarrow> error + question" where
  "published_objects_get now d k =
     (case find (\<lambda>q. question_pk q = k) (get_queryset now d) of
        None \<Rightarrow> Inl DoesNotExist
      | Some q \<Rightarrow> Inr q)"

subsection \<open>QuestionManager.create\<close>

text \<open>
  A choice of the payload is a dict; \<^verbatim>\<open>choice.get("choice_text")\<close> is \<open>None\<close> when the key
  is missing. A new row takes a primary key not yet in its table.
\<close>

type_synonym choice_data = "string \<rightharpoonup> string"

definition next_pk :: "nat list \<Rightarrow> nat" where
  "next_pk ks = Suc (fold max ks 0)"

text \<open>
  \<^verbatim>\<open>question.save()\<close>: \<open>question_text\<close> is \<open>unique=True\<close>; \<open>date_created\<close> is
  \<open>auto_now_add\<close>.
\<close>

definition save_question :: "int \<Rightarrow> user \<Rightarrow> string \<Rightarrow> int \<Rightarrow> db \<Rightarrow> error + question \<times> db" where
  "save_question now a t dp d =
     (if t \<in> set (map question_text (questions d)) then Inl IntegrityError
      else
        let q = \<lparr>question_pk = next_pk (map question_pk (questions d)), author = a,
                 question_text = t, date_published = dp, date_created = now\<rparr>
        in Inr (q, d\<lparr>questions := questions d @ [q]\<rparr>))"

text \<open>
  \<^verbatim>\<open>choice.save()\<close>: \<open>choice_text\<close> is not nullable, and the pair
  \<open>(question, choice_text)\<close> is unique (\<open>unique_choices_per_question\<close>).
\<close>

definition save_choice :: "nat \<Rightarrow> string option \<Rightarrow> db \<Rightarrow> error + db" where
  "save_choice qk t d =
     (case t of
        None \<Rightarrow> Inl IntegrityError
      | Some s \<Rightarrow>
          if list_ex (\<lambda>c. choice_question c = qk \<and> choice_text c = s) (choices d)
          then Inl IntegrityError
          else Inr (d\<lparr>choices := choices d @
                 [\<lparr>choice_pk = next_pk (map choice_pk (choices d)),
                   choice_question = qk, choice_text = s\<rparr>]\<rparr>))"

text \<open>
  The \<^verbatim>\<open>for choice in choices\<close> loop. An exception leaves the loop with the store
  as written so far.
\<close>

fun save_choices :: "nat \<Rightarrow> choice_data list \<Rightarrow> db \<Rightarrow> (error + unit) \<times> db" where
  "save_choices qk [] d = (Inr (), d)"
| "save_choices qk (c # cs) d =
     (case save_choice qk (c ''choice_text'') d of
        Inl e \<Rightarrow> (Inl e, d)
      | Inr d' \<Rightarrow> save_choices qk cs d')"

text \<open>The body of \<open>QuestionManager.create\<close>, without its decorator.\<close>

definition create_body ::
  "int \<Rightarrow> user \<Rightarrow> string \<Rightarrow> int \<Rightarrow> choice_data list \<Rightarrow> db \<Rightarrow> (error + question) \<times> db" where
  "create_body now a t dp cs d =
     (case save_question now a t dp d of
        Inl e \<Rightarrow> (Inl e, d)
      | Inr (q, d1) \<Rightarrow>
          (case save_choices (question_pk q) cs d1 of
             (Inl e, d2) \<Rightarrow> (Inl e, d2)
           | (Inr u, d2) \<Rightarrow> (Inr q, d2)))"

text \<open>
  \<^verbatim>\<open>@transaction.atomic\<close>: the body runs in a transaction; when it raises, the
  transaction is rolled back to the store as it was on entry and the exception
  is passed on; when it returns, the writes are committed.
\<close>

definition atomic :: "(db \<Rightarrow> (error + 'a) \<times> db) \<Rightarrow> db \<Rightarrow> (error + 'a) \<times> db" where
  "atomic body d =
     (case body d of
        (Inl e, d') \<Rightarrow> (Inl e, d)
      | (Inr x, d') \<Rightarrow> (Inr x, d'))"

definition QuestionManager_create ::
  "int \<Rightarrow> user \<Rightarrow> string \<Rightarrow> int \<Rightarrow> choice_data list \<Rightarrow> db \<Rightarrow> (error + question) \<times> db" where
  "QuestionManager_create now a t dp cs = atomic (create_body now a t dp cs)"

subsection \<open>ChoiceManager and related managers\<close>

text \<open>\<^verbatim>\<open>annotate(vote_count=Coalesce(Count("vote"), 0))\<close>\<close>

definition vote_count :: "db \<Rightarrow> choice \<Rightarrow> nat" where
  "vote_count d c = length (filter (\<lambda>v. vote_choice v = choice_pk c) (votes d))"

definition with_vote_count :: "db \<Rightarrow> (choice \<times> nat) list" where
  "with_vote_count d = map (\<lambda>c. (c, vote_count d c)) (choices d)"

text \<open>\<^verbatim>\<open>question.choices\<close>, the reverse side of \<open>Choice.question\<close>.\<close>

definition question_choices :: "db \<Rightarrow> question \<Rightarrow> choice list" where
  "question_choices d q = filter (\<lambda>c. choice_question c = question_pk q) (choices d)"

text \<open>\<^verbatim>\<open>valid_choices.contains(choice)\<close>: a row of the queryset has the object's primary key.\<close>

definition contains :: "choice list \<Rightarrow> choice \<Rightarrow> bool" where
  "contains cs ch = list_ex (\<lambda>c. choice_pk c = choice_pk ch) cs"

text \<open>\<^verbatim>\<open>valid_choices.filter(vote__voter=voter_pk)\<close>: the choices that carry a vote of the voter.\<close>

definition filter_vote_voter :: "db \<Rightarrow> choice list \<Rightarrow> nat \<Rightarrow> choice list" where
  "filter_vote_voter d cs voter_pk =
     filter (\<lambda>c. list_ex (\<lambda>v. vote_choice v = choice_pk c \<and> user_pk (voter v) = voter_pk) (votes d)) cs"

section \<open>Permissions (polls/permissions.py)\<close>

datatype http_method = GET | HEAD | OPTIONS | POST | PUT | PATCH | DELETE

text \<open>
  \<open>request.user\<close> is \<open>None\<close> for the anonymous user and \<open>Some u\<close> for a logged-in
  user; \<open>obj.author == request.user\<close> compares primary keys and is false for the
  anonymous user.
\<close>

definition SAFE_METHODS :: "http_method list" where
  "SAFE_METHODS = [GET, HEAD, OPTIONS]"

definition is_authenticated :: "user option \<Rightarrow> bool" where
  "is_authenticated ru = (ru \<noteq> None)"

definition same_user :: "user \<Rightarrow> user option \<Rightarrow> bool" where
  "same_user u ru = (case ru of None \<Rightarrow> False | Some r \<Rightarrow> user_pk u = user_pk r)"

definition IsAuthorOrReadOnly_has_permission :: "user option \<Rightarrow> bool" where
  "IsAuthorOrReadOnly_has_permission ru = is_authenticated ru"

definition IsAuthorOrReadOnly_has_object_permission ::
  "http_method \<Rightarrow> user option \<Rightarrow> question \<Rightarrow> bool" where
  "IsAuthorOrReadOnly_has_object_permission m ru obj =
     (if m \<in> set (SAFE_METHODS @ [POST]) then True else same_user (author obj) ru)"

definition IsVoterOnly_has_permission :: "user option \<Rightarrow> bool" where
  "IsVoterOnly_has_permission ru = is_authenticated ru"

definition IsVoterOnly_has_object_permission :: "http_method \<Rightarrow> user option \<Rightarrow> vote \<Rightarrow> bool" where
  "IsVoterOnly_has_object_permission m ru obj = same_user (voter obj) ru"

text \<open>
  Modelled from the spec: the project settings are not among the sources.
  \<open>ChoiceViewSet\<close> declares no \<open>permission_classes\<close> and takes the framework
  default named there. The spec says that every operation requires an
  authenticated identity and that choices are read-only for any authenticated
  identity (the tests expect 403 for an anonymous read of choices), so the
  default is modelled as the permission that admits logged-in users only, with
  no object-level restriction.
\<close>

definition DEFAULT_PERMISSION_has_permission :: "user option \<Rightarrow> bool" where
  "DEFAULT_PERMISSION_has_permission ru = is_authenticated ru"

definition DEFAULT_PERMISSION_has_object_permission :: "http_method \<Rightarrow> user option \<Rightarrow> choice \<Rightarrow> bool" where
  "DEFAULT_PERMISSION_has_object_permission m ru obj = True"

section \<open>Serializers (polls/serializers.py)\<close>

text \<open>
  Request bodies are modelled after the framework has parsed their primitive
  values (JSON decoding, type coercion, trimming of strings); a field that is
  not sent is \<open>None\<close>. Where the framework reports the errors of several fields
  in one response, the model returns the first; all of them are validation
  errors.
\<close>

subsection \<open>VoteSerializer\<close>

record vote_data =
  data_choice :: "nat option"
  data_hide_voter :: "bool option"

record vote_attrs =
  attrs_choice :: "choice option"
  attrs_hide_voter :: "bool option"

definition get_voter_username :: "vote \<Rightarrow> string" where
  "get_voter_username obj = (if hide_voter obj then ''*******'' else username (voter obj))"

definition VoteSerializer_to_representation :: "vote \<Rightarrow> nat \<times> string" where
  "VoteSerializer_to_representation obj = (vote_pk obj, get_voter_username obj)"

definition validate_choice :: "int \<Rightarrow> db \<Rightarrow> nat \<Rightarrow> choice \<Rightarrow> error + choice" where
  "validate_choice now d question_pk' ch =
     (case published_objects_get now d question_pk' of
        Inl e \<Rightarrow> Inl e
      | Inr q \<Rightarrow>
          let valid_choices = question_choices d q in
          if \<not> contains valid_choices ch
          then Inl (ValidationError ''Is not accepted by this question.'')
          else Inr ch)"

text \<open>
  \<open>validate\<close> runs after the permission check, so \<open>request.user\<close> is a logged-in
  user here.
\<close>

definition validate :: "int \<Rightarrow> db \<Rightarrow> nat \<Rightarrow> http_method \<Rightarrow> user \<Rightarrow> vote_attrs \<Rightarrow> error + vote_attrs" where
  "validate now d question_pk' m u attrs =
     (case published_objects_get now d question_pk' of
        Inl e \<Rightarrow> Inl e
      | Inr q \<Rightarrow>
          let valid_choices = question_choices d q; voter_pk = user_pk u in
          if m = POST \<and> filter_vote_voter d valid_choices voter_pk \<noteq> []
          then Inl (ValidationError ''Multiple voting detected.'')
          else Inr attrs)"

text \<open>
  The framework's field pass: \<open>choice\<close> is a primary-key field over all choices
  (\<open>required=False\<close>), followed by \<open>validate_choice\<close>; \<open>hide_voter\<close> is an optional
  boolean.
\<close>

definition VoteSerializer_to_internal_value :: "int \<Rightarrow> db \<Rightarrow> nat \<Rightarrow> vote_data \<Rightarrow> error + vote_attrs" where
  "VoteSerializer_to_internal_value now d question_pk' data =
     (case data_choice data of
        None \<Rightarrow> Inr \<lparr>attrs_choice = None, attrs_hide_voter = data_hide_voter data\<rparr>
      | Some k \<Rightarrow>
          (case find (\<lambda>c. choice_pk c = k) (choices d) of
             None \<Rightarrow> Inl (ValidationError ''Invalid pk - object does not exist.'')
           | Some ch \<Rightarrow>
               (case validate_choice now d question_pk' ch of
                  Inl e \<Rightarrow> Inl e
                | Inr ch' \<Rightarrow>
                    Inr \<lparr>attrs_choice = Some ch', attrs_hide_voter = data_hide_voter data\<rparr>)))"

definition VoteSerializer_is_valid ::
  "int \<Rightarrow> db \<Rightarrow> nat \<Rightarrow> http_method \<Rightarrow> user \<Rightarrow> vote_data \<Rightarrow> error + vote_attrs" where
  "VoteSerializer_is_valid now d question_pk' m u data =
     (case VoteSerializer_to_internal_value now d question_pk' data of
        Inl e \<Rightarrow> Inl e
      | Inr attrs \<Rightarrow> validate now d question_pk' m u attrs)"

subsection \<open>QuestionSerializer\<close>

record question_data =
  data_question_text :: string
  data_date_published :: int
  data_choices :: "choice_data list"

definition validate_choices :: "choice_data list \<Rightarrow> error + choice_data list" where
  "validate_choices cs =
     (if length cs < 2 then Inl (ValidationError ''Should be at least two.'')
      else if length cs > 20 then Inl (ValidationError ''Should not be more than 20.'')
      else
        let choice_texts = map (\<lambda>c. c ''choice_text'') cs in
        if card (set choice_texts) \<noteq> length choice_texts
        then Inl (ValidationError ''Should be unique.'')
        else Inr cs)"

text \<open>\<open>CharField(max_length=200)\<close> as a serializer field: not blank, at most 200 characters.\<close>

definition char_field :: "string \<Rightarrow> error + string" where
  "char_field s =
     (if s = [] then Inl (ValidationError ''This field may not be blank.'')
      else if length s > 200
      then Inl (ValidationError ''Ensure this field has no more than 200 characters.'')
      else Inr s)"

text \<open>
  The nested \<open>ChoiceSerializer(many=True, write_only=True)\<close>: \<open>choice_text\<close> is its
  only writable field; the validated item holds that key alone.
\<close>

definition ChoiceSerializer_to_internal_value :: "choice_data \<Rightarrow> error + choice_data" where
  "ChoiceSerializer_to_internal_value c =
     (case c ''choice_text'' of
        None \<Rightarrow> Inl (ValidationError ''This field is required.'')
      | Some s \<Rightarrow>
          (case char_field s of
             Inl e \<Rightarrow> Inl e
           | Inr s' \<Rightarrow> Inr [''choice_text'' \<mapsto> s']))"

fun ListSerializer_to_internal_value :: "choice_data list \<Rightarrow> error + choice_data list" where
  "ListSerializer_to_internal_value [] = Inr []"
| "ListSerializer_to_internal_value (c # cs) =
     (case ChoiceSerializer_to_internal_value c of
        Inl e \<Rightarrow> Inl e
      | Inr c' \<Rightarrow>
          (case ListSerializer_to_internal_value cs of
             Inl e \<Rightarrow> Inl e
           | Inr cs' \<Rightarrow> Inr (c' # cs')))"

text \<open>
  The field pass of \<open>QuestionSerializer\<close>: \<open>question_text\<close> with the uniqueness
  validator the model field's \<open>unique=True\<close> brings, then the nested choices and
  \<open>validate_choices\<close>.
\<close>

definition QuestionSerializer_is_valid :: "db \<Rightarrow> question_data \<Rightarrow> error + question_data" where
  "QuestionSerializer_is_valid d data =
     (case char_field (data_question_text data) of
        Inl e \<Rightarrow> Inl e
      | Inr t \<Rightarrow>
          if t \<in> set (map question_text (questions d))
          then Inl (ValidationError ''question with this question text already exists.'')
          else
            (case ListSerializer_to_internal_value (data_choices data) of
               Inl e \<Rightarrow> Inl e
             | Inr cs \<Rightarrow>
                 (case validate_choices cs of
                    Inl e \<Rightarrow> Inl e
                  | Inr cs' \<Rightarrow> Inr (data\<lparr>data_choices := cs'\<rparr>))))"

definition QuestionSerializer_create ::
  "int \<Rightarrow> user \<Rightarrow> question_data \<Rightarrow> db \<Rightarrow> (error + question) \<times> db" where
  "QuestionSerializer_create now a validated_data d =
     QuestionManager_create now a (data_question_text validated_data)
       (data_date_published validated_data) (data_choices validated_data) d"

section \<open>Views and routes (polls/views.py, polls/urls.py)\<close>

text \<open>
  A viewset handles a request in the framework's order: the view's
  \<open>has_permission\<close> (refusal is 403), then the handler bound to the method (405
  when the viewset has no action for it), which looks the object up in the
  view's queryset (404), checks \<open>has_object_permission\<close> (403), validates the
  payload (400) and only then writes. A handler returns the response or the
  exception, and the store it leaves.
\<close>

datatype body =
    QuestionList "question list"
  | QuestionDetail question
  | ChoiceList "(choice \<times> nat) list"
  | ChoiceDetail "choice \<times> nat"
  | VoteList "(nat \<times> string) list"
  | VoteDetail "nat \<times> string"
  | Metadata
  | NoContent

type_synonym response = "nat \<times> body"

datatype route =
    QuestionListRoute
  | QuestionDetailRoute nat
  | ChoiceListRoute nat
  | ChoiceDetailRoute nat nat
  | VoteListRoute nat nat
  | VoteDetailRoute nat nat nat

datatype payload = NoData | QuestionData question_data | VoteData vote_data

record request =
  req_method :: http_method
  req_user :: "user option"
  req_route :: route
  req_data :: payload

fun status_code :: "error + response \<Rightarrow> nat" where
  "status_code (Inl e) = error_status e"
| "status_code (Inr (st, b)) = st"

subsection \<open>QuestionViewSet\<close>

text \<open>
  \<open>queryset = Question.published_objects.all()\<close> is a class attribute: the
  manager's \<open>get_queryset\<close>, and with it \<open>timezone.now()\<close>, runs once, when the
  class body is executed, and each request runs the query again with that
  time. \<open>loaded\<close> is that time; \<open>now\<close> is the time of the request.
  \<open>permission_classes = (IsAuthorOrReadOnly,)\<close>.
\<close>

definition QuestionViewSet_get_object ::
  "int \<Rightarrow> db \<Rightarrow> http_method \<Rightarrow> user option \<Rightarrow> nat \<Rightarrow> error + question" where
  "QuestionViewSet_get_object loaded d m ru k =
     (case find (\<lambda>q. question_pk q = k) (get_queryset loaded d) of
        None \<Rightarrow> Inl Http404
      | Some q \<Rightarrow>
          if IsAuthorOrReadOnly_has_object_permission m ru q then Inr q
          else Inl PermissionDenied)"

text \<open>
  \<open>instance.delete()\<close>: the foreign keys are \<open>on_delete=CASCADE\<close>, so the question's
  choices and their votes go with it.
\<close>

definition delete_question :: "question \<Rightarrow> db \<Rightarrow> db" where
  "delete_question q d =
     (let gone = map choice_pk (filter (\<lambda>c. choice_question c = question_pk q) (choices d)) in
      \<lparr>questions = filter (\<lambda>x. question_pk x \<noteq> question_pk q) (questions d),
       choices = filter (\<lambda>c. choice_question c \<noteq> question_pk q) (choices d),
       votes = filter (\<lambda>v. vote_choice v \<notin> set gone) (votes d)\<rparr>)"

definition QuestionViewSet_list :: "int \<Rightarrow> db \<Rightarrow> (error + response) \<times> db" where
  "QuestionViewSet_list loaded d = (Inr (200, QuestionList (get_queryset loaded d)), d)"

text \<open>\<open>perform_create\<close>: \<open>serializer.save(author=self.request.user)\<close>.\<close>

definition QuestionViewSet_create :: "int \<Rightarrow> user \<Rightarrow> payload \<Rightarrow> db \<Rightarrow> (error + response) \<times> db" where
  "QuestionViewSet_create now u data d =
     (case data of
        QuestionData qd \<Rightarrow>
          (case QuestionSerializer_is_valid d qd of
             Inl e \<Rightarrow> (Inl e, d)
           | Inr validated_data \<Rightarrow>
               (case QuestionSerializer_create now u validated_data d of
                  (Inl e, d') \<Rightarrow> (Inl e, d')
                | (Inr q, d') \<Rightarrow> (Inr (201, QuestionDetail q), d')))
      | _ \<Rightarrow> (Inl (ValidationError ''This field is required.''), d))"

definition QuestionViewSet_retrieve ::
  "int \<Rightarrow> http_method \<Rightarrow> user option \<Rightarrow> nat \<Rightarrow> db \<Rightarrow> (error + response) \<times> db" where
  "QuestionViewSet_retrieve loaded m ru k d =
     (case QuestionViewSet_get_object loaded d m ru k of
        Inl e \<Rightarrow> (Inl e, d)
      | Inr q \<Rightarrow> (Inr (200, QuestionDetail q), d))"

definition QuestionViewSet_destroy ::
  "int \<Rightarrow> http_method \<Rightarrow> user option \<Rightarrow> nat \<Rightarrow> db \<Rightarrow> (error + response) \<times> db" where
  "QuestionViewSet_destroy loaded m ru k d =
     (case QuestionViewSet_get_object loaded d m ru k of
        Inl e \<Rightarrow> (Inl e, d)
      | Inr q \<Rightarrow> (Inr (204, NoContent), delete_question q d))"

subsection \<open>ChoiceViewSet\<close>

text \<open>\<open>Choice.objects.with_vote_count().filter(question=self.kwargs["question_pk"])\<close>\<close>

definition ChoiceViewSet_get_queryset :: "db \<Rightarrow> nat \<Rightarrow> (choice \<times> nat) list" where
  "ChoiceViewSet_get_queryset d question_pk' =
     filter (\<lambda>(c, n). choice_question c = question_pk') (with_vote_count d)"

definition ChoiceViewSet_list :: "nat \<Rightarrow> db \<Rightarrow> (error + response) \<times> db" where
  "ChoiceViewSet_list question_pk' d =
     (Inr (200, ChoiceList (ChoiceViewSet_get_queryset d question_pk')), d)"

definition ChoiceViewSet_retrieve ::
  "http_method \<Rightarrow> user option \<Rightarrow> nat \<Rightarrow> nat \<Rightarrow> db \<Rightarrow> (error + response) \<times> db" where
  "ChoiceViewSet_retrieve m ru question_pk' k d =
     (case find (\<lambda>(c, n). choice_pk c = k) (ChoiceViewSet_get_queryset d question_pk') of
        None \<Rightarrow> (Inl Http404, d)
      | Some (c, n) \<Rightarrow>
          if DEFAULT_PERMISSION_has_object_permission m ru c
          then (Inr (200, ChoiceDetail (c, n)), d)
          else (Inl PermissionDenied, d))"

subsection \<open>VoteViewSet\<close>

text \<open>\<open>Vote.objects.filter(choice=self.kwargs["choice_pk"])\<close>, \<open>permission_classes = (IsVoterOnly,)\<close>.\<close>

definition VoteViewSet_get_queryset :: "db \<Rightarrow> nat \<Rightarrow> vote list" where
  "VoteViewSet_get_queryset d choice_pk' = filter (\<lambda>v. vote_choice v = choice_pk') (votes d)"

definition VoteViewSet_get_object ::
  "db \<Rightarrow> http_method \<Rightarrow> user option \<Rightarrow> nat \<Rightarrow> nat \<Rightarrow> error + vote" where
  "VoteViewSet_get_object d m ru choice_pk' k =
     (case find (\<lambda>v. vote_pk v = k) (VoteViewSet_get_queryset d choice_pk') of
        None \<Rightarrow> Inl Http404
      | Some v \<Rightarrow>
          if IsVoterOnly_has_object_permission m ru v then Inr v
          else Inl PermissionDenied)"

text \<open>
  \<open>Vote.objects.create(...)\<close> and \<open>instance.save()\<close>: the pair \<open>(voter, choice)\<close> is
  unique (\<open>unique_voters_per_choice\<close>).
\<close>

definition create_vote :: "user \<Rightarrow> choice \<Rightarrow> bool \<Rightarrow> db \<Rightarrow> error + vote \<times> db" where
  "create_vote u c hide d =
     (if list_ex (\<lambda>w. user_pk (voter w) = user_pk u \<and> vote_choice w = choice_pk c) (votes d)
      then Inl IntegrityError
      else
        let v = \<lparr>vote_pk = next_pk (map vote_pk (votes d)), voter = u,
                 vote_choice = choice_pk c, hide_voter = hide\<rparr>
        in Inr (v, d\<lparr>votes := votes d @ [v]\<rparr>))"

definition update_vote :: "vote \<Rightarrow> vote_attrs \<Rightarrow> db \<Rightarrow> error + vote \<times> db" where
  "update_vote instance attrs d =
     (let v = instance
           \<lparr>vote_choice := (case attrs_choice attrs of
                              None \<Rightarrow> vote_choice instance | Some c \<Rightarrow> choice_pk c),
            hide_voter := (case attrs_hide_voter attrs of
                             None \<Rightarrow> hide_voter instance | Some b \<Rightarrow> b)\<rparr>
      in
        if list_ex (\<lambda>w. vote_pk w \<noteq> vote_pk v \<and> user_pk (voter w) = user_pk (voter v)
                        \<and> vote_choice w = vote_choice v) (votes d)
        then Inl IntegrityError
        else Inr (v, d\<lparr>votes := map (\<lambda>w. if vote_pk w = vote_pk v then v else w) (votes d)\<rparr>))"

definition delete_vote :: "vote \<Rightarrow> db \<Rightarrow> db" where
  "delete_vote v d = d\<lparr>votes := filter (\<lambda>w. vote_pk w \<noteq> vote_pk v) (votes d)\<rparr>"

text \<open>
  \<open>perform_create\<close>: the voter is the requester; without a validated \<open>choice\<close> the
  choice is \<open>Choice.objects.get(pk=self.kwargs["choice_pk"])\<close>; \<open>hide_voter\<close> falls
  back to the model field's \<open>default=True\<close>.
\<close>

definition perform_create :: "user \<Rightarrow> nat \<Rightarrow> vote_attrs \<Rightarrow> db \<Rightarrow> error + vote \<times> db" where
  "perform_create u choice_pk' attrs d =
     (case (case attrs_choice attrs of
              None \<Rightarrow>
                (case find (\<lambda>c. choice_pk c = choice_pk') (choices d) of
                   None \<Rightarrow> Inl DoesNotExist
                 | Some c \<Rightarrow> Inr c)
            | Some c \<Rightarrow> Inr c) of
        Inl e \<Rightarrow> Inl e
      | Inr c \<Rightarrow>
          create_vote u c (case attrs_hide_voter attrs of None \<Rightarrow> True | Some b \<Rightarrow> b) d)"

definition payload_vote_data :: "payload \<Rightarrow> vote_data" where
  "payload_vote_data data =
     (case data of
        VoteData vd \<Rightarrow> vd
      | _ \<Rightarrow> \<lparr>data_choice = None, data_hide_voter = None\<rparr>)"

definition VoteViewSet_list :: "nat \<Rightarrow> db \<Rightarrow> (error + response) \<times> db" where
  "VoteViewSet_list choice_pk' d =
     (Inr (200, VoteList (map VoteSerializer_to_representation (VoteViewSet_get_queryset d choice_pk'))), d)"

definition VoteViewSet_create ::
  "int \<Rightarrow> http_method \<Rightarrow> user \<Rightarrow> nat \<Rightarrow> nat \<Rightarrow> payload \<Rightarrow> db \<Rightarrow> (error + response) \<times> db" where
  "VoteViewSet_create now m u question_pk' choice_pk' data d =
     (case VoteSerializer_is_valid now d question_pk' m u (payload_vote_data data) of
        Inl e \<Rightarrow> (Inl e, d)
      | Inr attrs \<Rightarrow>
          (case perform_create u choice_pk' attrs d of
             Inl e \<Rightarrow> (Inl e, d)
           | Inr (v, d') \<Rightarrow> (Inr (201, VoteDetail (VoteSerializer_to_representation v)), d')))"

definition VoteViewSet_retrieve ::
  "http_method \<Rightarrow> user option \<Rightarrow> nat \<Rightarrow> nat \<Rightarrow> db \<Rightarrow> (error + response) \<times> db" where
  "VoteViewSet_retrieve m ru choice_pk' k d =
     (case VoteViewSet_get_object d m ru choice_pk' k of
        Inl e \<Rightarrow> (Inl e, d)
      | Inr v \<Rightarrow> (Inr (200, VoteDetail (VoteSerializer_to_representation v)), d))"

text \<open>\<open>update\<close> (PUT) and \<open>partial_update\<close> (PATCH); both fields of the payload are optional.\<close>

definition VoteViewSet_update ::
  "int \<Rightarrow> http_method \<Rightarrow> user \<Rightarrow> nat \<Rightarrow> nat \<Rightarrow> nat \<Rightarrow> payload \<Rightarrow> db \<Rightarrow> (error + response) \<times> db" where
  "VoteViewSet_update now m u question_pk' choice_pk' k data d =
     (case VoteViewSet_get_object d m (Some u) choice_pk' k of
        Inl e \<Rightarrow> (Inl e, d)
      | Inr instance \<Rightarrow>
          (case VoteSerializer_is_valid now d question_pk' m u (payload_vote_data data) of
             Inl e \<Rightarrow> (Inl e, d)
           | Inr attrs \<Rightarrow>
               (case update_vote instance attrs d of
                  Inl e \<Rightarrow> (Inl e, d)
                | Inr (v, d') \<Rightarrow> (Inr (200, VoteDetail (VoteSerializer_to_representation v)), d'))))"

definition VoteViewSet_destroy ::
  "http_method \<Rightarrow> user option \<Rightarrow> nat \<Rightarrow> nat \<Rightarrow> db \<Rightarrow> (error + response) \<times> db" where
  "VoteViewSet_destroy m ru choice_pk' k d =
     (case VoteViewSet_get_object d m ru choice_pk' k of
        Inl e \<Rightarrow> (Inl e, d)
      | Inr v \<Rightarrow> (Inr (204, NoContent), delete_vote v d))"

subsection \<open>Routes\<close>

text \<open>
  The nested routers bind, for each viewset, the list route to \<open>list\<close>/\<open>create\<close> and
  the detail route to \<open>retrieve\<close>/\<open>update\<close>/\<open>partial_update\<close>/\<open>destroy\<close>, as far as the
  viewset has the action. HEAD is answered by the GET handler and OPTIONS by
  the framework's metadata.
\<close>

definition QuestionViewSet ::
  "int \<Rightarrow> int \<Rightarrow> request \<Rightarrow> nat option \<Rightarrow> db \<Rightarrow> (error + response) \<times> db" where
  "QuestionViewSet loaded now r pk d =
     (if \<not> IsAuthorOrReadOnly_has_permission (req_user r) then (Inl PermissionDenied, d)
      else
        (case req_user r of
           None \<Rightarrow> (Inl PermissionDenied, d)
         | Some u \<Rightarrow>
             (case pk of
                None \<Rightarrow>
                  (case req_method r of
                     GET \<Rightarrow> QuestionViewSet_list loaded d
                   | HEAD \<Rightarrow> QuestionViewSet_list loaded d
                   | OPTIONS \<Rightarrow> (Inr (200, Metadata), d)
                   | POST \<Rightarrow> QuestionViewSet_create now u (req_data r) d
                   | _ \<Rightarrow> (Inl MethodNotAllowed, d))
              | Some k \<Rightarrow>
                  (case req_method r of
                     GET \<Rightarrow> QuestionViewSet_retrieve loaded GET (req_user r) k d
                   | HEAD \<Rightarrow> QuestionViewSet_retrieve loaded HEAD (req_user r) k d
                   | OPTIONS \<Rightarrow> (Inr (200, Metadata), d)
                   | DELETE \<Rightarrow> QuestionViewSet_destroy loaded DELETE (req_user r) k d
                   | _ \<Rightarrow> (Inl MethodNotAllowed, d)))))"

definition ChoiceViewSet :: "request \<Rightarrow> nat \<Rightarrow> nat option \<Rightarrow> db \<Rightarrow> (error + response) \<times> db" where
  "ChoiceViewSet r question_pk' pk d =
     (if \<not> DEFAULT_PERMISSION_has_permission (req_user r) then (Inl PermissionDenied, d)
      else
        (case pk of
           None \<Rightarrow>
             (case req_method r of
                GET \<Rightarrow> ChoiceViewSet_list question_pk' d
              | HEAD \<Rightarrow> ChoiceViewSet_list question_pk' d
              | OPTIONS \<Rightarrow> (Inr (200, Metadata), d)
              | _ \<Rightarrow> (Inl MethodNotAllowed, d))
         | Some k \<Rightarrow>
             (case req_method r of
                GET \<Rightarrow> ChoiceViewSet_retrieve GET (req_user r) question_pk' k d
              | HEAD \<Rightarrow> ChoiceViewSet_retrieve HEAD (req_user r) question_pk' k d
              | OPTIONS \<Rightarrow> (Inr (200, Metadata), d)
              | _ \<Rightarrow> (Inl MethodNotAllowed, d))))"

definition VoteViewSet ::
  "int \<Rightarrow> request \<Rightarrow> nat \<Rightarrow> nat \<Rightarrow> nat option \<Rightarrow> db \<Rightarrow> (error + response) \<times> db" where
  "VoteViewSet now r question_pk' choice_pk' pk d =
     (if \<not> IsVoterOnly_has_permission (req_user r) then (Inl PermissionDenied, d)
      else
        (case req_user r of
           None \<Rightarrow> (Inl PermissionDenied, d)
         | Some u \<Rightarrow>
             (case pk of
                None \<Rightarrow>
                  (case req_method r of
                     GET \<Rightarrow> VoteViewSet_list choice_pk' d
                   | HEAD \<Rightarrow> VoteViewSet_list choice_pk' d
                   | OPTIONS \<Rightarrow> (Inr (200, Metadata), d)
                   | POST \<Rightarrow> VoteViewSet_create now POST u question_pk' choice_pk' (req_data r) d
                   | _ \<Rightarrow> (Inl MethodNotAllowed, d))
              | Some k \<Rightarrow>
                  (case req_method r of
                     GET \<Rightarrow> VoteViewSet_retrieve GET (req_user r) choice_pk' k d
                   | HEAD \<Rightarrow> VoteViewSet_retrieve HEAD (req_user r) choice_pk' k d
                   | OPTIONS \<Rightarrow> (Inr (200, Metadata), d)
                   | PUT \<Rightarrow> VoteViewSet_update now PUT u question_pk' choice_pk' k (req_data r) d
                   | PATCH \<Rightarrow> VoteViewSet_update now PATCH u question_pk' choice_pk' k (req_data r) d
                   | DELETE \<Rightarrow> VoteViewSet_destroy DELETE (req_user r) choice_pk' k d
                   | POST \<Rightarrow> (Inl MethodNotAllowed, d)))))"

definition dispatch :: "int \<Rightarrow> int \<Rightarrow> request \<Rightarrow> db \<Rightarrow> (error + response) \<times> db" where
  "dispatch loaded now r d =
     (case req_route r of
        QuestionListRoute \<Rightarrow> QuestionViewSet loaded now r None d
      | QuestionDetailRoute k \<Rightarrow> QuestionViewSet loaded now r (Some k) d
      | ChoiceListRoute qk \<Rightarrow> ChoiceViewSet r qk None d
      | ChoiceDetailRoute qk k \<Rightarrow> ChoiceViewSet r qk (Some k) d
      | VoteListRoute qk ck \<Rightarrow> VoteViewSet now r qk ck None d
      | VoteDetailRoute qk ck k \<Rightarrow> VoteViewSet now r qk ck (Some k) d)"

section \<open>An example store\<close>

text \<open>
  Two users; a question published thirty days ago, one to be published in
  thirty days, one published yesterday and one without choices; two votes on
  the first choice of the first question. The current time is \<open>0\<close>; the
  views were loaded at time \<open>- 10\<close>.
\<close>

definition testuser :: user where
  "testuser = \<lparr>user_pk = 1, username = ''testuser''\<rparr>"

definition user2 :: user where
  "user2 = \<lparr>user_pk = 2, username = ''user2''\<rparr>"

definition past_question :: question where
  "past_question = \<lparr>question_pk = 1, author = testuser, question_text = ''Past question'',
     date_published = - 30, date_created = - 40\<rparr>"

definition future_question :: question where
  "future_question = \<lparr>question_pk = 2, author = testuser, question_text = ''Future question'',
     date_published = 30, date_created = - 40\<rparr>"

definition recent_question :: question where
  "recent_question = \<lparr>question_pk = 3, author = user2, question_text = ''Another past question'',
     date_published = - 1, date_created = - 40\<rparr>"

definition empty_question :: question where
  "empty_question = \<lparr>question_pk = 4, author = user2, question_text = ''No choices'',
     date_published = - 5, date_created = - 40\<rparr>"

definition first_choice :: choice where
  "first_choice = \<lparr>choice_pk = 1, choice_question = 1, choice_text = ''First choice''\<rparr>"

definition third_choice :: choice where
  "third_choice = \<lparr>choice_pk = 3, choice_question = 2, choice_text = ''Third choice''\<rparr>"

definition example_choices :: "choice list" where
  "example_choices =
     [first_choice,
      \<lparr>choice_pk = 2, choice_question = 1, choice_text = ''Second choice''\<rparr>,
      third_choice,
      \<lparr>choice_pk = 4, choice_question = 2, choice_text = ''Fourth choice''\<rparr>,
      \<lparr>choice_pk = 5, choice_question = 3, choice_text = ''Fifth choice''\<rparr>,
      \<lparr>choice_pk = 6, choice_question = 3, choice_text = ''Sixth choice''\<rparr>]"

definition hidden_vote :: vote where
  "hidden_vote = \<lparr>vote_pk = 1, voter = testuser, vote_choice = 1, hide_voter = True\<rparr>"

definition visible_vote :: vote where
  "visible_vote = \<lparr>vote_pk = 2, voter = user2, vote_choice = 1, hide_voter = False\<rparr>"

definition example_db :: db where
  "example_db =
     \<lparr>questions = [past_question, future_question, recent_question, empty_question],
      choices = example_choices,
      votes = [hidden_vote, visible_vote]\<rparr>"

text \<open>\<open>n\<close> choices of the payload with pairwise different texts.\<close>

definition choices_data :: "nat \<Rightarrow> choice_data list" where
  "choices_data n = map (\<lambda>i. [''choice_text'' \<mapsto> replicate (Suc i) CHR ''x'']) [0..<n]"

lemmas example_defs =
  testuser_def user2_def past_question_def future_question_def recent_question_def
  empty_question_def first_choice_def third_choice_def example_choices_def hidden_vote_def visible_vote_def example_db_def

text \<open>A payload with a repeated choice text, and the question row a create at time \<open>0\<close> inserts.\<close>

definition duplicate_choices :: "choice_data list" where
  "duplicate_choices =
     [[''choice_text'' \<mapsto> ''Duplicate choice''], [''choice_text'' \<mapsto> ''Some choice''],
      [''choice_text'' \<mapsto> ''Duplicate choice'']]"





definition author_get_future :: request where
  "author_get_future = \<lparr>req_method = GET, req_user = Some testuser, req_route = QuestionDetailRoute 2,
      req_data = NoData\<rparr>"

definition author_delete_future :: request where
  "author_delete_future = \<lparr>req_method = DELETE, req_user = Some testuser, req_route = QuestionDetailRoute 2,
      req_data = NoData\<rparr>"






text \<open>
  The voter holds a vote on some choice of the question with key \<open>qk\<close>
  (stated on the tables, for the properties below).
\<close>

definition holds_vote :: "db \<Rightarrow> user \<Rightarrow> nat \<Rightarrow> bool" where
  "holds_vote d u qk =
     list_ex (\<lambda>v. user_pk (voter v) = user_pk u
                \<and> list_ex (\<lambda>c. choice_pk c = vote_choice v \<and> choice_question c = qk) (choices d))
       (votes d)"

text \<open>
  Votes under mismatched paths. \<open>post_cross_path\<close> votes under the path of
  question 3 for choice 3, which belongs to the future question 2;
  \<open>cross_vote_db\<close> is the store after it. \<open>post_future_vote\<close> then votes again,
  under the path of question 2. \<open>post_cross_choice\<close> names choice 1 (of
  question 1) in its payload under the path of question 2.
\<close>

definition post_cross_path :: request where
  "post_cross_path = \<lparr>req_method = POST, req_user = Some testuser,
      req_route = VoteListRoute 3 3, req_data = NoData\<rparr>"

definition cross_vote :: vote where
  "cross_vote = \<lparr>vote_pk = 3, voter = testuser, vote_choice = 3, hide_voter = True\<rparr>"

definition cross_vote_db :: db where
  "cross_vote_db = example_db\<lparr>votes := votes example_db @ [cross_vote]\<rparr>"

definition post_future_vote :: request where
  "post_future_vote = \<lparr>req_method = POST, req_user = Some testuser,
      req_route = VoteListRoute 2 4, req_data = NoData\<rparr>"

definition post_cross_choice :: request where
  "post_cross_choice = \<lparr>req_method = POST, req_user = Some testuser,
      req_route = VoteListRoute 2 3,
      req_data = VoteData \<lparr>data_choice = Some 1, data_hide_voter = None\<rparr>\<rparr>"

text \<open>Requests under the path of the published question 1.\<close>

definition post_second_vote :: request where
  "post_second_vote = \<lparr>req_method = POST, req_user = Some testuser,
      req_route = VoteListRoute 1 2, req_data = NoData\<rparr>"

definition put_second_choice :: request where
  "put_second_choice = \<lparr>req_method = PUT, req_user = Some testuser,
      req_route = VoteDetailRoute 1 1 1,
      req_data = VoteData \<lparr>data_choice = Some 2, data_hide_voter = None\<rparr>\<rparr>"

definition put_third_choice :: request where
  "put_third_choice = \<lparr>req_method = PUT, req_user = Some testuser,
      req_route = VoteDetailRoute 1 1 1,
      req_data = VoteData \<lparr>data_choice = Some 3, data_hide_voter = Some False\<rparr>\<rparr>"

definition put_missing_choice :: request where
  "put_missing_choice = \<lparr>req_method = PUT, req_user = Some testuser,
      req_route = VoteDetailRoute 1 1 1,
      req_data = VoteData \<lparr>data_choice = Some 7, data_hide_voter = Some False\<rparr>\<rparr>"

definition post_third_choice :: request where
  "post_third_choice = \<lparr>req_method = POST, req_user = Some user2,
      req_route = VoteListRoute 3 5,
      req_data = VoteData \<lparr>data_choice = Some 3, data_hide_voter = None\<rparr>\<rparr>"

text \<open>A create request with 21 choices.\<close>

definition post_twenty_one :: request where
  "post_twenty_one = \<lparr>req_method = POST, req_user = Some testuser, req_route = QuestionListRoute,
      req_data = QuestionData \<lparr>data_question_text = ''A question'', data_date_published = - 30,
        data_choices = choices_data 21\<rparr>\<rparr>"


definition other_get_recent :: request where
  "other_get_recent = \<lparr>req_method = GET, req_user = Some user2,
      req_route = QuestionDetailRoute 3, req_data = NoData\<rparr>"

section \<open>Published questions\<close>

lemma get_queryset_mset:
  "mset (get_queryset now d) =
     filter_mset (\<lambda>q. date_published q \<le> now \<and> 1 \<le> choice_count d q) (mset (questions d))"
proof -
  have "(\<lambda>q. \<not> (now < date_published q \<or> choice_count d q = 0)) =
        (\<lambda>q. date_published q \<le> now \<and> 1 \<le> choice_count d q)"
    by (auto simp: fun_eq_iff)
  then show ?thesis
    by (simp add: get_queryset_def)
qed

lemma get_queryset_descending:
  "sorted_wrt (\<lambda>a b. date_published b \<le> date_published a) (get_queryset now d)"
proof -
  have "sorted (map (\<lambda>q. - date_published q) (get_queryset now d))"
    unfolding get_queryset_def by (rule sorted_sort_key)
  then show ?thesis
    by (simp add: sorted_map sorted_wrt_iff_nth_less)
qed

text \<open>
  C1. The published queryset holds exactly the stored questions with
  \<open>date_published \<le> now\<close> and at least one choice (each as often as it is
  stored), most recent first; a question with a future date or without
  choices is not in it.
\<close>

theorem published_questions_exact:
  "mset (get_queryset now d) =
     filter_mset (\<lambda>q. date_published q \<le> now \<and> 1 \<le> choice_count d q) (mset (questions d))
   \<and> set (get_queryset now d) =
     {q \<in> set (questions d). date_published q \<le> now \<and> 1 \<le> choice_count d q}
   \<and> sorted_wrt (\<lambda>a b. date_published b \<le> date_published a) (get_queryset now d)
   \<and> (\<forall>q. now < date_published q \<or> choice_count d q = 0 \<longrightarrow> q \<notin> set (get_queryset now d))"
proof -
  have s: "set (get_queryset now d) =
     {q \<in> set (questions d). date_published q \<le> now \<and> 1 \<le> choice_count d q}"
    by (auto simp: get_queryset_def)
  show ?thesis
    using get_queryset_mset get_queryset_descending s by auto
qed

theorem published_questions_exact_witness:
  "get_queryset 0 example_db = [recent_question, past_question]
   \<and> set (get_queryset 0 example_db) = {recent_question, past_question}
   \<and> future_question \<notin> set (get_queryset 0 example_db)
   \<and> empty_question \<notin> set (get_queryset 0 example_db)"
  using published_questions_exact [of 0 example_db]
  by (simp add: get_queryset_def choice_count_def example_defs)

section \<open>Validation of the choices of a new question\<close>

lemma card_set_length: "(card (set xs) \<noteq> length xs) = (\<not> distinct xs)"
  using card_distinct distinct_card by blast

lemma length_choices_data: "length (choices_data n) = n"
  by (simp add: choices_data_def)

lemma distinct_choices_data: "distinct (map (\<lambda>c. c ''choice_text'') (choices_data n))"
proof -
  have "map (\<lambda>c. c ''choice_text'') (choices_data n) =
        map (\<lambda>i. Some (replicate (Suc i) CHR ''x'')) [0..<n]"
    by (simp add: choices_data_def comp_def)
  moreover have "inj_on (\<lambda>i. Some (replicate (Suc i) CHR ''x'')) (set [0..<n])"
    by (rule inj_onI) (metis length_replicate option.inject Suc_inject)
  ultimately show ?thesis by (simp add: distinct_map)
qed

lemma ChoiceSerializer_text:
  "ChoiceSerializer_to_internal_value c = Inr c' \<Longrightarrow> c' ''choice_text'' = c ''choice_text''"
  by (auto simp: ChoiceSerializer_to_internal_value_def char_field_def
      split: option.splits if_splits)

lemma ChoiceSerializer_error:
  "ChoiceSerializer_to_internal_value c = Inl e \<Longrightarrow> \<exists>msg. e = ValidationError msg"
  by (auto simp: ChoiceSerializer_to_internal_value_def char_field_def
      split: option.splits if_splits)

lemma ListSerializer_texts:
  "ListSerializer_to_internal_value cs = Inr cs' \<Longrightarrow>
     map (\<lambda>c. c ''choice_text'') cs' = map (\<lambda>c. c ''choice_text'') cs"
proof (induction cs arbitrary: cs')
  case Nil
  then show ?case by simp
next
  case (Cons c cs)
  then show ?case
    by (auto split: sum.splits dest: ChoiceSerializer_text)
qed

lemma ListSerializer_error:
  "ListSerializer_to_internal_value cs = Inl e \<Longrightarrow> \<exists>msg. e = ValidationError msg"
  by (induction cs arbitrary: e) (auto split: sum.splits dest: ChoiceSerializer_error)

lemma validate_choices_error:
  "validate_choices cs = Inl e \<Longrightarrow> \<exists>msg. e = ValidationError msg"
  by (auto simp: validate_choices_def Let_def split: if_splits)

lemma QuestionSerializer_is_valid_error:
  "QuestionSerializer_is_valid d qd = Inl e \<Longrightarrow> \<exists>msg. e = ValidationError msg"
  by (auto simp: QuestionSerializer_is_valid_def char_field_def
      split: sum.splits if_splits dest: ListSerializer_error validate_choices_error)

lemma QuestionSerializer_is_valid_choices:
  assumes "length (data_choices qd) < 2 \<or> 20 < length (data_choices qd)
     \<or> \<not> distinct (map (\<lambda>c. c ''choice_text'') (data_choices qd))"
  shows "\<exists>msg. QuestionSerializer_is_valid d qd = Inl (ValidationError msg)"
proof (cases "QuestionSerializer_is_valid d qd")
  case (Inl e)
  then show ?thesis using QuestionSerializer_is_valid_error by blast
next
  case (Inr v)
  then obtain cs where l: "ListSerializer_to_internal_value (data_choices qd) = Inr cs"
    and c: "validate_choices cs = Inr cs"
    by (auto simp: QuestionSerializer_is_valid_def validate_choices_def Let_def
        split: sum.splits if_splits)
  from ListSerializer_texts [OF l]
  have t: "map (\<lambda>c. c ''choice_text'') cs = map (\<lambda>c. c ''choice_text'') (data_choices qd)" .
  then have "length cs = length (data_choices qd)"
    using map_eq_imp_length_eq by blast
  with c t assms have False
    by (auto simp: validate_choices_def Let_def card_set_length split: if_splits)
  then show ?thesis ..
qed

lemma create_question_bad_choices:
  assumes "req_route r = QuestionListRoute" and "req_method r = POST"
    and "req_user r = Some u" and "req_data r = QuestionData qd"
    and "length (data_choices qd) < 2 \<or> 20 < length (data_choices qd)
     \<or> \<not> distinct (map (\<lambda>c. c ''choice_text'') (data_choices qd))"
  shows "\<exists>msg. dispatch loaded now r d = (Inl (ValidationError msg), d)"
proof -
  from QuestionSerializer_is_valid_choices [OF assms(5), of d]
  obtain msg where "QuestionSerializer_is_valid d qd = Inl (ValidationError msg)" by auto
  with assms(1-4) show ?thesis
    by (simp add: dispatch_def QuestionViewSet_def IsAuthorOrReadOnly_has_permission_def
        is_authenticated_def QuestionViewSet_create_def)
qed

text \<open>
  C3. \<open>validate_choices\<close> accepts the list of choices exactly when it has
  between 2 and 20 entries whose texts are pairwise different (equality of
  strings, character by character); otherwise it raises a validation error.
  A create request whose choices are fewer than 2, more than 20 or not
  pairwise different is answered 400 and writes nothing.
\<close>

theorem validate_choices_spec:
  "(validate_choices cs = Inr cs) =
     (2 \<le> length cs \<and> length cs \<le> 20 \<and> distinct (map (\<lambda>c. c ''choice_text'') cs))
   \<and> (length cs < 2 \<or> 20 < length cs \<or> \<not> distinct (map (\<lambda>c. c ''choice_text'') cs)
        \<longrightarrow> (\<exists>msg. validate_choices cs = Inl (ValidationError msg)
                  \<and> error_status (ValidationError msg) = 400))
   \<and> (req_route r = QuestionListRoute \<and> req_method r = POST \<and> req_user r = Some u
        \<and> req_data r = QuestionData qd
        \<and> (length (data_choices qd) < 2 \<or> 20 < length (data_choices qd)
             \<or> \<not> distinct (map (\<lambda>c. c ''choice_text'') (data_choices qd)))
        \<longrightarrow> (\<exists>msg. dispatch loaded now r d = (Inl (ValidationError msg), d))
             \<and> status_code (fst (dispatch loaded now r d)) = 400)"
proof -
  have "(validate_choices cs = Inr cs) =
     (2 \<le> length cs \<and> length cs \<le> 20 \<and> distinct (map (\<lambda>c. c ''choice_text'') cs))"
    by (auto simp: validate_choices_def Let_def card_set_length)
  moreover have "length cs < 2 \<or> 20 < length cs \<or> \<not> distinct (map (\<lambda>c. c ''choice_text'') cs)
        \<longrightarrow> (\<exists>msg. validate_choices cs = Inl (ValidationError msg)
                  \<and> error_status (ValidationError msg) = 400)"
    by (auto simp: validate_choices_def Let_def card_set_length)
  moreover have "req_route r = QuestionListRoute \<and> req_method r = POST \<and> req_user r = Some u
        \<and> req_data r = QuestionData qd
        \<and> (length (data_choices qd) < 2 \<or> 20 < length (data_choices qd)
             \<or> \<not> distinct (map (\<lambda>c. c ''choice_text'') (data_choices qd)))
        \<longrightarrow> (\<exists>msg. dispatch loaded now r d = (Inl (ValidationError msg), d))
             \<and> status_code (fst (dispatch loaded now r d)) = 400"
    using create_question_bad_choices [of r u qd loaded now d] by auto
  ultimately show ?thesis by blast
qed

text \<open>The bounds: 2 and 20 choices pass, 1 and 21 do not, nor does a repeated text.\<close>

theorem validate_choices_spec_witness:
  "validate_choices (choices_data 2) = Inr (choices_data 2)
   \<and> validate_choices (choices_data 20) = Inr (choices_data 20)
   \<and> (\<exists>msg. validate_choices (choices_data 1) = Inl (ValidationError msg))
   \<and> (\<exists>msg. validate_choices (choices_data 21) = Inl (ValidationError msg))
   \<and> (\<exists>msg. validate_choices duplicate_choices = Inl (ValidationError msg))
   \<and> status_code (fst (dispatch (- 10) 0 post_twenty_one example_db)) = 400"
  using validate_choices_spec [of "choices_data 2"] validate_choices_spec [of "choices_data 20"]
    validate_choices_spec [of "choices_data 1"]
    validate_choices_spec [where cs = "choices_data 21" and r = post_twenty_one and u = testuser
      and qd = "\<lparr>data_question_text = ''A question'', data_date_published = - 30,
        data_choices = choices_data 21\<rparr>" and loaded = "- 10" and now = 0 and d = example_db]
    validate_choices_spec [of duplicate_choices]
  by (simp add: length_choices_data distinct_choices_data duplicate_choices_def post_twenty_one_def)

section \<open>Creating a question\<close>

lemma save_choice_questions: "save_choice qk t d = Inr d' \<Longrightarrow> questions d' = questions d"
  by (auto simp: save_choice_def split: option.splits if_splits)

lemma save_choices_questions: "questions (snd (save_choices qk cs d)) = questions d"
  by (induction cs arbitrary: d) (auto split: sum.splits dest: save_choice_questions)

lemma save_choice_votes: "save_choice qk t d = Inr d' \<Longrightarrow> votes d' = votes d"
  by (auto simp: save_choice_def split: option.splits if_splits)

lemma save_choices_votes: "votes (snd (save_choices qk cs d)) = votes d"
  by (induction cs arbitrary: d) (auto split: sum.splits dest: save_choice_votes)

lemma save_choices_rows:
  "save_choices qk cs d = (Inr u, d') \<Longrightarrow>
     \<exists>new. choices d' = choices d @ new \<and> length new = length cs
        \<and> map choice_question new = replicate (length cs) qk
        \<and> map (\<lambda>c. Some (choice_text c)) new = map (\<lambda>c. c ''choice_text'') cs"
proof (induction cs arbitrary: d)
  case Nil
  then show ?case by simp
next
  case (Cons c cs)
  from Cons.prems obtain d1 where s: "save_choice qk (c ''choice_text'') d = Inr d1"
    and r: "save_choices qk cs d1 = (Inr u, d')"
    by (auto split: sum.splits)
  from s obtain t where t: "c ''choice_text'' = Some t"
    and d1: "choices d1 = choices d @ [\<lparr>choice_pk = next_pk (map choice_pk (choices d)),
                   choice_question = qk, choice_text = t\<rparr>]"
    by (auto simp: save_choice_def split: option.splits if_splits)
  from Cons.IH [OF r] obtain new where n: "choices d' = choices d1 @ new" "length new = length cs"
     "map choice_question new = replicate (length cs) qk"
     "map (\<lambda>c. Some (choice_text c)) new = map (\<lambda>c. c ''choice_text'') cs"
    by blast
  show ?case
    by (rule exI [of _ "\<lparr>choice_pk = next_pk (map choice_pk (choices d)),
                   choice_question = qk, choice_text = t\<rparr> # new"]) (simp add: n d1 t)
qed

lemma create_failure_rolls_back:
  "fst (QuestionManager_create now a t dp cs d) = Inl e \<Longrightarrow>
     snd (QuestionManager_create now a t dp cs d) = d"
  by (auto simp: QuestionManager_create_def atomic_def split: prod.splits sum.splits)

lemma create_success_rows:
  assumes "QuestionManager_create now a t dp cs d = (Inr q, d')"
  shows "questions d' = questions d @ [q] \<and> votes d' = votes d
     \<and> (\<exists>new. choices d' = choices d @ new \<and> length new = length cs
           \<and> map choice_question new = replicate (length cs) (question_pk q)
           \<and> map (\<lambda>c. Some (choice_text c)) new = map (\<lambda>c. c ''choice_text'') cs)"
proof -
  from assms obtain d1 u where q: "save_question now a t dp d = Inr (q, d1)"
    and c: "save_choices (question_pk q) cs d1 = (Inr u, d')"
    by (auto simp: QuestionManager_create_def atomic_def create_body_def
        split: prod.splits sum.splits)
  from q have d1: "questions d1 = questions d @ [q]" "choices d1 = choices d" "votes d1 = votes d"
    by (auto simp: save_question_def Let_def split: if_splits)
  from save_choices_questions [of "question_pk q" cs d1] c d1
  have "questions d' = questions d @ [q]" by simp
  moreover from save_choices_votes [of "question_pk q" cs d1] c d1
  have "votes d' = votes d" by simp
  moreover from save_choices_rows [OF c] d1
  have "\<exists>new. choices d' = choices d @ new \<and> length new = length cs
           \<and> map choice_question new = replicate (length cs) (question_pk q)
           \<and> map (\<lambda>c. Some (choice_text c)) new = map (\<lambda>c. c ''choice_text'') cs"
    by simp
  ultimately show ?thesis by blast
qed




section \<open>Authentication\<close>



section \<open>Unpublished questions\<close>

lemma get_queryset_set:
  "set (get_queryset now d) =
     {q \<in> set (questions d). date_published q \<le> now \<and> 1 \<le> choice_count d q}"
  by (auto simp: get_queryset_def)

lemma find_unpublished:
  assumes "\<forall>q\<in>set (questions d). question_pk q = k \<longrightarrow> now < date_published q"
    and "loaded \<le> now"
  shows "find (\<lambda>q. question_pk q = k) (get_queryset loaded d) = None"
  using assms by (fastforce simp: find_None_iff get_queryset_set)

text \<open>
  C10. The question routes look the object up in the published queryset: when
  the question with the key of the path has a \<open>date_published\<close> later than the
  time of the request (which is not before the time the views were loaded),
  GET and DELETE by any logged-in user, the author included, are answered 404
  and the store is left as it was.
\<close>

theorem unpublished_question_not_found:
  assumes "\<forall>q\<in>set (questions d). question_pk q = k \<longrightarrow> now < date_published q"
    and "loaded \<le> now"
    and "req_user r = Some u"
    and "req_route r = QuestionDetailRoute k"
    and "req_method r = GET \<or> req_method r = DELETE"
  shows "dispatch loaded now r d = (Inl Http404, d) \<and> status_code (fst (dispatch loaded now r d)) = 404"
  using assms(3-5) find_unpublished [OF assms(1,2)]
  by (auto simp: dispatch_def QuestionViewSet_def IsAuthorOrReadOnly_has_permission_def
      is_authenticated_def QuestionViewSet_retrieve_def QuestionViewSet_destroy_def
      QuestionViewSet_get_object_def)

theorem unpublished_question_not_found_witness:
  "future_question \<in> set (questions example_db) \<and> author future_question = testuser
   \<and> 0 < date_published future_question
   \<and> dispatch (- 10) 0 author_get_future example_db = (Inl Http404, example_db)
   \<and> dispatch (- 10) 0 author_delete_future example_db = (Inl Http404, example_db)"
  using unpublished_question_not_found [where d = example_db and k = 2 and now = 0
      and loaded = "- 10" and r = author_get_future and u = testuser]
    unpublished_question_not_found [where d = example_db and k = 2 and now = 0
      and loaded = "- 10" and r = author_delete_future and u = testuser]
  by (simp add: author_get_future_def author_delete_future_def example_defs)

text \<open>
  The time in the view's queryset is the time the views were loaded: a question
  whose \<open>date_published\<close> lies between that time and the request is published
  for the manager, and yet not found by the question routes.
\<close>

lemma published_after_load_not_found:
  "recent_question \<in> set (get_queryset 0 example_db)
   \<and> dispatch (- 10) 0 other_get_recent example_db = (Inl Http404, example_db)"
  by (simp add: dispatch_def QuestionViewSet_def IsAuthorOrReadOnly_has_permission_def
      is_authenticated_def QuestionViewSet_retrieve_def QuestionViewSet_get_object_def
      get_queryset_def choice_count_def other_get_recent_def example_defs)

section \<open>Visibility of the voter\<close>






section \<open>Object permissions\<close>







text \<open>
  The object permission of votes does not look at the method: reading a single
  vote is refused to everybody but its voter, too.
\<close>

lemma vote_retrieve_denied:
  assumes "find (\<lambda>v. vote_pk v = k) (VoteViewSet_get_queryset d ck) = Some v"
    and "req_user r = Some u"
    and "req_route r = VoteDetailRoute qk ck k"
    and "req_method r = GET"
    and "user_pk (voter v) \<noteq> user_pk u"
  shows "dispatch loaded now r d = (Inl PermissionDenied, d)"
  using assms
  by (auto simp: dispatch_def VoteViewSet_def IsVoterOnly_has_permission_def
      is_authenticated_def VoteViewSet_retrieve_def
      VoteViewSet_get_object_def IsVoterOnly_has_object_permission_def same_user_def)





section \<open>Validation of votes\<close>

lemma published_objects_get_pk:
  "published_objects_get now d qk = Inr q \<Longrightarrow> question_pk q = qk"
  by (auto simp: published_objects_get_def find_Some_iff split: option.splits)

lemma find_choice_pk:
  "find (\<lambda>c. choice_pk c = k) (choices d) = Some ch \<Longrightarrow> ch \<in> set (choices d) \<and> choice_pk ch = k"
  by (auto simp: find_Some_iff)

lemma not_contains_other_question:
  assumes "\<forall>ch\<in>set (choices d). choice_pk ch = c \<longrightarrow> choice_question ch \<noteq> question_pk q"
    and "choice_pk x = c"
  shows "\<not> contains (question_choices d q) x"
  using assms by (auto simp: contains_def question_choices_def list_ex_iff)

text \<open>
  The field pass on a payload whose \<open>choice\<close> names no choice of the question of
  the path always raises; it raises a validation error when the question of
  the path is published.
\<close>

lemma to_internal_value_bad_choice:
  assumes "data_choice vd = Some c"
    and "\<forall>ch\<in>set (choices d). choice_pk ch = c \<longrightarrow> choice_question ch \<noteq> qk"
  shows "\<exists>e. VoteSerializer_to_internal_value now d qk vd = Inl e
     \<and> (e = DoesNotExist \<or> (\<exists>msg. e = ValidationError msg))
     \<and> (\<forall>q. published_objects_get now d qk = Inr q \<longrightarrow> (\<exists>msg. e = ValidationError msg))"
proof (cases "find (\<lambda>ch. choice_pk ch = c) (choices d)")
  case None
  then show ?thesis
    using assms(1) by (simp add: VoteSerializer_to_internal_value_def)
next
  case (Some x)
  then have x: "choice_pk x = c" using find_choice_pk by blast
  show ?thesis
  proof (cases "published_objects_get now d qk")
    case (Inl e)
    then have "e = DoesNotExist"
      by (auto simp: published_objects_get_def split: option.splits)
    with Inl Some assms(1) show ?thesis
      by (simp add: VoteSerializer_to_internal_value_def validate_choice_def)
  next
    case (Inr q)
    then have "question_pk q = qk" by (rule published_objects_get_pk)
    with assms(2) x have "\<not> contains (question_choices d q) x"
      using not_contains_other_question by blast
    with Inr Some assms(1) show ?thesis
      by (simp add: VoteSerializer_to_internal_value_def validate_choice_def)
  qed
qed

lemma is_valid_bad_choice:
  assumes "data_choice vd = Some c"
    and "\<forall>ch\<in>set (choices d). choice_pk ch = c \<longrightarrow> choice_question ch \<noteq> qk"
  shows "\<exists>e. VoteSerializer_is_valid now d qk m u vd = Inl e
     \<and> (\<forall>q. published_objects_get now d qk = Inr q \<longrightarrow> (\<exists>msg. e = ValidationError msg))"
  using to_internal_value_bad_choice [OF assms, of now]
  by (auto simp: VoteSerializer_is_valid_def)

text \<open>
  C6. An update (PUT or PATCH) of a vote whose payload names as new choice a
  key that is no choice of the question of the path (a choice of another
  question, or no choice at all) ends in an error, whoever sends it and
  whatever the store holds, and the store, the vote in it included, is left
  exactly as it was.
\<close>

theorem bad_choice_update_rejected:
  assumes "req_route r = VoteDetailRoute qk ck k"
    and "req_method r = PUT \<or> req_method r = PATCH"
    and "req_data r = VoteData vd"
    and "data_choice vd = Some c"
    and "\<forall>ch\<in>set (choices d). choice_pk ch = c \<longrightarrow> choice_question ch \<noteq> qk"
  shows "\<exists>e. dispatch loaded now r d = (Inl e, d)"
proof (cases "req_user r")
  case None
  then show ?thesis
    using assms(1)
    by (simp add: dispatch_def VoteViewSet_def IsVoterOnly_has_permission_def is_authenticated_def)
next
  case (Some u)
  have p: "payload_vote_data (req_data r) = vd"
    by (simp add: assms(3) payload_vote_data_def)
  have "\<exists>e. VoteViewSet_update now m u qk ck k (req_data r) d = (Inl e, d)" for m
  proof (cases "VoteViewSet_get_object d m (Some u) ck k")
    case (Inl e)
    then show ?thesis by (simp add: VoteViewSet_update_def)
  next
    case (Inr v)
    from is_valid_bad_choice [OF assms(4,5), of now m u]
    obtain e where "VoteSerializer_is_valid now d qk m u vd = Inl e" by auto
    with Inr p show ?thesis by (simp add: VoteViewSet_update_def)
  qed
  then show ?thesis
    using assms(1,2) Some
    by (auto simp: dispatch_def VoteViewSet_def IsVoterOnly_has_permission_def is_authenticated_def)
qed

lemma put_third_choice_result:
  "dispatch (- 10) 0 put_third_choice example_db =
     (Inl (ValidationError ''Is not accepted by this question.''), example_db)"
  by (simp add: dispatch_def VoteViewSet_def IsVoterOnly_has_permission_def is_authenticated_def
      VoteViewSet_update_def VoteViewSet_get_object_def VoteViewSet_get_queryset_def
      IsVoterOnly_has_object_permission_def same_user_def payload_vote_data_def
      VoteSerializer_is_valid_def VoteSerializer_to_internal_value_def validate_choice_def
      published_objects_get_def get_queryset_def choice_count_def question_choices_def
      contains_def put_third_choice_def example_defs)

lemma put_missing_choice_result:
  "dispatch (- 10) 0 put_missing_choice example_db =
     (Inl (ValidationError ''Invalid pk - object does not exist.''), example_db)"
  by (simp add: dispatch_def VoteViewSet_def IsVoterOnly_has_permission_def is_authenticated_def
      VoteViewSet_update_def VoteViewSet_get_object_def VoteViewSet_get_queryset_def
      IsVoterOnly_has_object_permission_def same_user_def payload_vote_data_def
      VoteSerializer_is_valid_def VoteSerializer_to_internal_value_def
      put_missing_choice_def example_defs)

theorem bad_choice_update_rejected_witness:
  "hidden_vote \<in> set (votes example_db) \<and> third_choice \<in> set (choices example_db)
   \<and> choice_question third_choice = 2
   \<and> (\<exists>e. dispatch (- 10) 0 put_third_choice example_db = (Inl e, example_db))
   \<and> (\<exists>e. dispatch (- 10) 0 put_missing_choice example_db = (Inl e, example_db))
   \<and> hidden_vote \<in> set (votes (snd (dispatch (- 10) 0 put_third_choice example_db)))"
  using bad_choice_update_rejected [where r = put_third_choice and qk = 1 and ck = 1 and k = 1
      and vd = "\<lparr>data_choice = Some 3, data_hide_voter = Some False\<rparr>" and c = 3
      and d = example_db and loaded = "- 10" and now = 0]
    bad_choice_update_rejected [where r = put_missing_choice and qk = 1 and ck = 1 and k = 1
      and vd = "\<lparr>data_choice = Some 7, data_hide_voter = Some False\<rparr>" and c = 7
      and d = example_db and loaded = "- 10" and now = 0]
    put_third_choice_result
  by (simp add: put_third_choice_def put_missing_choice_def example_defs)

text \<open>
  C5 (as the code has it). Under the path of a published question, a vote
  create (POST) by a logged-in user, and a vote update (PUT or PATCH) that has
  found the vote and passed its object permission, whose payload names as
  \<open>choice\<close> a key that is no choice of that question, is rejected with a
  validation error (400, not 404), and the store is left as it was.
\<close>

theorem cross_question_choice_rejected:
  assumes "published_objects_get now d qk = Inr q"
    and "req_user r = Some u"
    and "req_data r = VoteData vd"
    and "data_choice vd = Some c"
    and "\<forall>ch\<in>set (choices d). choice_pk ch = c \<longrightarrow> choice_question ch \<noteq> qk"
    and "(req_route r = VoteListRoute qk ck \<and> req_method r = POST)
       \<or> (req_route r = VoteDetailRoute qk ck k \<and> (req_method r = PUT \<or> req_method r = PATCH)
           \<and> VoteViewSet_get_object d (req_method r) (Some u) ck k = Inr v)"
  shows "(\<exists>msg. dispatch loaded now r d = (Inl (ValidationError msg), d))
     \<and> status_code (fst (dispatch loaded now r d)) = 400"
proof -
  have p: "payload_vote_data (req_data r) = vd"
    by (simp add: assms(3) payload_vote_data_def)
  have v: "\<exists>msg. VoteSerializer_is_valid now d qk m u vd = Inl (ValidationError msg)" for m
    using is_valid_bad_choice [OF assms(4,5), of now m u] assms(1) by auto
  have "\<exists>msg. dispatch loaded now r d = (Inl (ValidationError msg), d)"
    using assms(6)
  proof
    assume a: "req_route r = VoteListRoute qk ck \<and> req_method r = POST"
    from v [of POST] obtain msg where
      "VoteSerializer_is_valid now d qk POST u vd = Inl (ValidationError msg)" by auto
    with a assms(2) p show ?thesis
      by (simp add: dispatch_def VoteViewSet_def IsVoterOnly_has_permission_def
          is_authenticated_def VoteViewSet_create_def)
  next
    assume a: "req_route r = VoteDetailRoute qk ck k \<and> (req_method r = PUT \<or> req_method r = PATCH)
           \<and> VoteViewSet_get_object d (req_method r) (Some u) ck k = Inr v"
    from v [of "req_method r"] obtain msg where
      "VoteSerializer_is_valid now d qk (req_method r) u vd = Inl (ValidationError msg)" by auto
    with a assms(2) p show ?thesis
      by (auto simp: dispatch_def VoteViewSet_def IsVoterOnly_has_permission_def
          is_authenticated_def VoteViewSet_update_def)
  qed
  then show ?thesis by auto
qed

lemma published_objects_get_examples:
  "published_objects_get 0 example_db 1 = Inr past_question"
  "published_objects_get 0 example_db 3 = Inr recent_question"
  "published_objects_get 0 example_db 2 = Inl DoesNotExist"
  by (simp_all add: published_objects_get_def get_queryset_def choice_count_def example_defs)

lemma get_object_hidden_vote:
  "VoteViewSet_get_object example_db m (Some testuser) 1 1 = Inr hidden_vote"
  by (simp add: VoteViewSet_get_object_def VoteViewSet_get_queryset_def
      IsVoterOnly_has_object_permission_def same_user_def example_defs)

theorem cross_question_choice_rejected_witness:
  "third_choice \<in> set (choices example_db) \<and> choice_question third_choice = 2
   \<and> dispatch (- 10) 0 put_third_choice example_db =
       (Inl (ValidationError ''Is not accepted by this question.''), example_db)
   \<and> status_code (fst (dispatch (- 10) 0 put_third_choice example_db)) = 400
   \<and> (\<exists>msg. dispatch (- 10) 0 post_third_choice example_db = (Inl (ValidationError msg), example_db))
   \<and> status_code (fst (dispatch (- 10) 0 post_third_choice example_db)) = 400"
  using cross_question_choice_rejected [where r = put_third_choice and qk = 1 and ck = 1
      and k = 1 and vd = "\<lparr>data_choice = Some 3, data_hide_voter = Some False\<rparr>" and c = 3
      and d = example_db and loaded = "- 10" and now = 0 and u = testuser and q = past_question and v = hidden_vote]
    cross_question_choice_rejected [where r = post_third_choice and qk = 3 and ck = 5
      and vd = "\<lparr>data_choice = Some 3, data_hide_voter = None\<rparr>" and c = 3
      and d = example_db and loaded = "- 10" and now = 0 and u = user2 and q = recent_question]
    put_third_choice_result published_objects_get_examples get_object_hidden_vote
  by (simp add: put_third_choice_def post_third_choice_def example_defs)

text \<open>
  C5 without the condition on the question of the path does not hold: question 2 exists but is dated in the future, choice 1
  belongs to question 1, and the create is not answered 400; the lookup of the
  question raises \<open>DoesNotExist\<close>, which nothing catches.
\<close>

theorem cross_question_choice_counterexample:
  "future_question \<in> set (questions example_db) \<and> question_pk future_question = 2
   \<and> first_choice \<in> set (choices example_db) \<and> choice_pk first_choice = 1
   \<and> choice_question first_choice \<noteq> 2
   \<and> req_route post_cross_choice = VoteListRoute 2 3
   \<and> req_data post_cross_choice = VoteData \<lparr>data_choice = Some 1, data_hide_voter = None\<rparr>
   \<and> dispatch (- 10) 0 post_cross_choice example_db = (Inl DoesNotExist, example_db)
   \<and> status_code (fst (dispatch (- 10) 0 post_cross_choice example_db)) \<noteq> 400"
  by (simp add: dispatch_def VoteViewSet_def IsVoterOnly_has_permission_def is_authenticated_def
      VoteViewSet_create_def payload_vote_data_def
      VoteSerializer_is_valid_def VoteSerializer_to_internal_value_def validate_choice_def
      published_objects_get_def get_queryset_def choice_count_def
      post_cross_choice_def example_defs)

section \<open>One vote per question\<close>

lemma filter_vote_voter_holds_vote:
  "(filter_vote_voter d (question_choices d q) (user_pk u) \<noteq> []) = holds_vote d u (question_pk q)"
  by (simp add: filter_vote_voter_def question_choices_def holds_vote_def list_ex_iff
      filter_empty_conv) metis

lemma validate_post:
  assumes "published_objects_get now d qk = Inr q"
  shows "validate now d qk POST u attrs =
     (if holds_vote d u qk then Inl (ValidationError ''Multiple voting detected.'') else Inr attrs)"
  using assms published_objects_get_pk [OF assms]
  by (simp add: validate_def Let_def filter_vote_voter_holds_vote)

lemma validate_not_post:
  assumes "published_objects_get now d qk = Inr q" and "m \<noteq> POST"
  shows "validate now d qk m u attrs = Inr attrs"
  using assms by (simp add: validate_def Let_def)

lemma to_internal_value_error:
  assumes "published_objects_get now d qk = Inr q"
    and "VoteSerializer_to_internal_value now d qk vd = Inl e"
  shows "\<exists>msg. e = ValidationError msg"
  using assms
  by (auto simp: VoteSerializer_to_internal_value_def validate_choice_def Let_def
      split: option.splits if_splits)

lemma create_holding_vote:
  assumes "published_objects_get now d qk = Inr q"
    and "holds_vote d u qk"
  shows "\<exists>msg. VoteViewSet_create now POST u qk ck data d = (Inl (ValidationError msg), d)"
proof (cases "VoteSerializer_to_internal_value now d qk (payload_vote_data data)")
  case (Inl e)
  with to_internal_value_error [OF assms(1) Inl] show ?thesis
    by (auto simp: VoteViewSet_create_def VoteSerializer_is_valid_def)
next
  case (Inr attrs)
  with validate_post [OF assms(1), of u attrs] assms(2) show ?thesis
    by (simp add: VoteViewSet_create_def VoteSerializer_is_valid_def)
qed

lemma update_vote_error:
  "(update_vote v attrs d = Inl IntegrityError) =
     (\<exists>w\<in>set (votes d). vote_pk w \<noteq> vote_pk v \<and> user_pk (voter w) = user_pk (voter v)
        \<and> vote_choice w = (case attrs_choice attrs of None \<Rightarrow> vote_choice v | Some c \<Rightarrow> choice_pk c))"
  "update_vote v attrs d = Inl e \<Longrightarrow> e = IntegrityError"
  by (auto simp: update_vote_def Let_def list_ex_iff split: if_splits)

lemma update_validated:
  assumes "published_objects_get now d qk = Inr q"
    and "m \<noteq> POST"
    and "VoteViewSet_get_object d m (Some u) ck k = Inr v"
    and "VoteSerializer_to_internal_value now d qk (payload_vote_data data) = Inr attrs"
  shows "VoteViewSet_update now m u qk ck k data d =
     (case update_vote v attrs d of
        Inl e \<Rightarrow> (Inl e, d)
      | Inr (v', d') \<Rightarrow> (Inr (200, VoteDetail (VoteSerializer_to_representation v')), d'))"
  using assms validate_not_post [OF assms(1,2), of u attrs]
  by (simp add: VoteViewSet_update_def VoteSerializer_is_valid_def)

text \<open>
  C4 (as the code has it). Under the path of a published question, a POST by
  a voter who already holds a vote on a choice of that question is rejected
  with a validation error (400) and writes nothing. The check is made for POST
  only: for any other method \<open>validate\<close> returns the attributes, and an update
  (PUT or PATCH) that has passed the field validation is decided by the store
  alone, which refuses it exactly when another vote of the same voter is
  already on the target choice.
\<close>

theorem one_vote_per_question_on_create:
  assumes "published_objects_get now d qk = Inr q"
    and "req_user r = Some u"
  shows "(holds_vote d u qk \<and> req_route r = VoteListRoute qk ck \<and> req_method r = POST \<longrightarrow>
          (\<exists>msg. dispatch loaded now r d = (Inl (ValidationError msg), d))
          \<and> status_code (fst (dispatch loaded now r d)) = 400)
     \<and> validate now d qk POST u attrs =
          (if holds_vote d u qk then Inl (ValidationError ''Multiple voting detected.'')
           else Inr attrs)
     \<and> (m \<noteq> POST \<longrightarrow> validate now d qk m u attrs = Inr attrs)
     \<and> (req_route r = VoteDetailRoute qk ck k \<and> (req_method r = PUT \<or> req_method r = PATCH)
          \<and> VoteViewSet_get_object d (req_method r) (Some u) ck k = Inr v
          \<and> VoteSerializer_to_internal_value now d qk (payload_vote_data (req_data r)) = Inr attrs
          \<longrightarrow>
          dispatch loaded now r d =
            (case update_vote v attrs d of
               Inl e \<Rightarrow> (Inl e, d)
             | Inr (v', d') \<Rightarrow> (Inr (200, VoteDetail (VoteSerializer_to_representation v')), d'))
          \<and> (\<forall>e. update_vote v attrs d = Inl e \<longrightarrow> e = IntegrityError)
          \<and> ((update_vote v attrs d = Inl IntegrityError) =
               (\<exists>w\<in>set (votes d). vote_pk w \<noteq> vote_pk v
                  \<and> user_pk (voter w) = user_pk (voter v)
                  \<and> vote_choice w =
                      (case attrs_choice attrs of None \<Rightarrow> vote_choice v | Some c \<Rightarrow> choice_pk c))))"
proof -
  have 1: "holds_vote d u qk \<and> req_route r = VoteListRoute qk ck \<and> req_method r = POST \<longrightarrow>
          (\<exists>msg. dispatch loaded now r d = (Inl (ValidationError msg), d))
          \<and> status_code (fst (dispatch loaded now r d)) = 400"
  proof
    assume a: "holds_vote d u qk \<and> req_route r = VoteListRoute qk ck \<and> req_method r = POST"
    then obtain msg where
      "VoteViewSet_create now POST u qk ck (req_data r) d = (Inl (ValidationError msg), d)"
      using create_holding_vote [OF assms(1), of u ck "req_data r"] by auto
    with a assms(2) have "dispatch loaded now r d = (Inl (ValidationError msg), d)"
      by (simp add: dispatch_def VoteViewSet_def IsVoterOnly_has_permission_def
          is_authenticated_def)
    then show "(\<exists>msg. dispatch loaded now r d = (Inl (ValidationError msg), d))
          \<and> status_code (fst (dispatch loaded now r d)) = 400"
      by simp
  qed
  have 4: "req_route r = VoteDetailRoute qk ck k \<and> (req_method r = PUT \<or> req_method r = PATCH)
          \<and> VoteViewSet_get_object d (req_method r) (Some u) ck k = Inr v
          \<and> VoteSerializer_to_internal_value now d qk (payload_vote_data (req_data r)) = Inr attrs
          \<longrightarrow>
          dispatch loaded now r d =
            (case update_vote v attrs d of
               Inl e \<Rightarrow> (Inl e, d)
             | Inr (v', d') \<Rightarrow> (Inr (200, VoteDetail (VoteSerializer_to_representation v')), d'))"
  proof
    assume a: "req_route r = VoteDetailRoute qk ck k \<and> (req_method r = PUT \<or> req_method r = PATCH)
          \<and> VoteViewSet_get_object d (req_method r) (Some u) ck k = Inr v
          \<and> VoteSerializer_to_internal_value now d qk (payload_vote_data (req_data r)) = Inr attrs"
    then have "req_method r \<noteq> POST" by auto
    from update_validated [OF assms(1) this, of u ck k v "req_data r" attrs] a assms(2)
    show "dispatch loaded now r d =
            (case update_vote v attrs d of
               Inl e \<Rightarrow> (Inl e, d)
             | Inr (v', d') \<Rightarrow> (Inr (200, VoteDetail (VoteSerializer_to_representation v')), d'))"
      by (auto simp: dispatch_def VoteViewSet_def IsVoterOnly_has_permission_def
          is_authenticated_def)
  qed
  show ?thesis
    using 1 4 validate_post [OF assms(1), of u attrs] validate_not_post [OF assms(1), of m u attrs]
      update_vote_error [of v attrs d]
    by blast
qed

lemma post_second_vote_result:
  "dispatch (- 10) 0 post_second_vote example_db =
     (Inl (ValidationError ''Multiple voting detected.''), example_db)"
  by (simp add: dispatch_def VoteViewSet_def IsVoterOnly_has_permission_def is_authenticated_def
      VoteViewSet_create_def payload_vote_data_def VoteSerializer_is_valid_def
      VoteSerializer_to_internal_value_def validate_def Let_def
      published_objects_get_def get_queryset_def choice_count_def question_choices_def
      filter_vote_voter_def post_second_vote_def example_defs)

lemma put_second_choice_result:
  "dispatch (- 10) 0 put_second_choice example_db =
     (Inr (200, VoteDetail (1, ''*******'')),
      example_db\<lparr>votes := [hidden_vote\<lparr>vote_choice := 2\<rparr>, visible_vote]\<rparr>)"
  by (simp add: dispatch_def VoteViewSet_def IsVoterOnly_has_permission_def is_authenticated_def
      VoteViewSet_update_def VoteViewSet_get_object_def VoteViewSet_get_queryset_def
      IsVoterOnly_has_object_permission_def same_user_def payload_vote_data_def
      VoteSerializer_is_valid_def VoteSerializer_to_internal_value_def validate_choice_def
      validate_def Let_def contains_def update_vote_def
      VoteSerializer_to_representation_def get_voter_username_def
      published_objects_get_def get_queryset_def choice_count_def question_choices_def
      filter_vote_voter_def put_second_choice_def example_defs)

theorem one_vote_per_question_on_create_witness:
  "holds_vote example_db testuser 1
   \<and> dispatch (- 10) 0 post_second_vote example_db =
       (Inl (ValidationError ''Multiple voting detected.''), example_db)
   \<and> status_code (fst (dispatch (- 10) 0 post_second_vote example_db)) = 400
   \<and> validate 0 example_db 1 PUT testuser \<lparr>attrs_choice = None, attrs_hide_voter = None\<rparr>
       = Inr \<lparr>attrs_choice = None, attrs_hide_voter = None\<rparr>
   \<and> status_code (fst (dispatch (- 10) 0 put_second_choice example_db)) = 200
   \<and> votes (snd (dispatch (- 10) 0 put_second_choice example_db))
       = [hidden_vote\<lparr>vote_choice := 2\<rparr>, visible_vote]"
proof -
  have h: "holds_vote example_db testuser 1"
    by (simp add: holds_vote_def example_defs)
  show ?thesis
    using one_vote_per_question_on_create [where r = post_second_vote and qk = 1 and ck = 2
        and loaded = "- 10" and now = 0 and d = example_db and q = past_question and u = testuser and m = PUT
        and attrs = "\<lparr>attrs_choice = None, attrs_hide_voter = None\<rparr>"]
      h post_second_vote_result put_second_choice_result published_objects_get_examples
    by (simp add: post_second_vote_def)
qed

text \<open>
  An update can leave a voter with two votes on one question. After
  \<open>testuser\<close> has voted for choice 5 of question 3, a PUT under the path of
  question 1 moves that vote to choice 2 of question 1, where \<open>testuser\<close>
  already holds a vote for choice 1.
\<close>

lemma update_second_vote_on_question:
  "dispatch (- 10) 0 \<lparr>req_method = POST, req_user = Some testuser, req_route = VoteListRoute 3 5,
        req_data = NoData\<rparr> example_db =
     (Inr (201, VoteDetail (3, ''*******'')),
      example_db\<lparr>votes := [hidden_vote, visible_vote,
        \<lparr>vote_pk = 3, voter = testuser, vote_choice = 5, hide_voter = True\<rparr>]\<rparr>)"
  "dispatch (- 10) 0 \<lparr>req_method = PUT, req_user = Some testuser, req_route = VoteDetailRoute 1 5 3,
        req_data = VoteData \<lparr>data_choice = Some 2, data_hide_voter = None\<rparr>\<rparr>
      (example_db\<lparr>votes := [hidden_vote, visible_vote,
        \<lparr>vote_pk = 3, voter = testuser, vote_choice = 5, hide_voter = True\<rparr>]\<rparr>) =
     (Inr (200, VoteDetail (3, ''*******'')),
      example_db\<lparr>votes := [hidden_vote, visible_vote,
        \<lparr>vote_pk = 3, voter = testuser, vote_choice = 2, hide_voter = True\<rparr>]\<rparr>)"
  by (simp_all add: dispatch_def VoteViewSet_def IsVoterOnly_has_permission_def
      is_authenticated_def VoteViewSet_create_def perform_create_def create_vote_def next_pk_def
      VoteViewSet_update_def VoteViewSet_get_object_def VoteViewSet_get_queryset_def
      IsVoterOnly_has_object_permission_def same_user_def payload_vote_data_def
      VoteSerializer_is_valid_def VoteSerializer_to_internal_value_def validate_choice_def
      validate_def Let_def contains_def update_vote_def
      VoteSerializer_to_representation_def get_voter_username_def
      published_objects_get_def get_queryset_def choice_count_def question_choices_def
      filter_vote_voter_def example_defs)

text \<open>
  C4 without the condition on the question of the path does not hold. A vote under the path of the published question 3 for
  choice 3, which belongs to the future question 2, is accepted; the voter then
  holds a vote on question 2, and a further POST under the path of question 2
  is not answered 400: the lookup of the question raises \<open>DoesNotExist\<close>, which
  nothing catches.
\<close>

theorem one_vote_per_question_counterexample:
  "dispatch (- 10) 0 post_cross_path example_db = (Inr (201, VoteDetail (3, ''*******'')), cross_vote_db)
   \<and> holds_vote cross_vote_db testuser 2
   \<and> req_method post_future_vote = POST
   \<and> req_user post_future_vote = Some testuser
   \<and> req_route post_future_vote = VoteListRoute 2 4
   \<and> dispatch (- 10) 0 post_future_vote cross_vote_db = (Inl DoesNotExist, cross_vote_db)
   \<and> status_code (fst (dispatch (- 10) 0 post_future_vote cross_vote_db)) \<noteq> 400"
  by (simp add: dispatch_def VoteViewSet_def IsVoterOnly_has_permission_def is_authenticated_def
      VoteViewSet_create_def perform_create_def create_vote_def next_pk_def
      payload_vote_data_def VoteSerializer_is_valid_def
      VoteSerializer_to_internal_value_def validate_def Let_def
      VoteSerializer_to_representation_def get_voter_username_def
      published_objects_get_def get_queryset_def choice_count_def question_choices_def
      filter_vote_voter_def holds_vote_def
      post_cross_path_def post_future_vote_def cross_vote_db_def cross_vote_def example_defs)

end
